theory Spec2Isabelle
  imports Complex_Main "HOL-Library.Word"
begin

section \<open>The D2Q9 lattice of BALBM (include/lattice.hh)\<close>

text \<open>
  The embedding follows the class \<open>balbm::d2q9::Lattice\<close>. The C++ type \<open>unsigned\<close> is a
  32-bit word (arithmetic wraps), \<open>int\<close> is the same word read in two's complement, and a
  \<open>double\<close> is idealised as a real number. Undefined behaviour of the C++ (reading an
  array outside its storage, going through a null pointer) is an error value of the model.
  A member or private function that the source writes with a trailing underscore
  (\<open>ni_\<close>, \<open>spf_\<close>, \<open>f_\<close>) carries the suffix \<open>_m\<close> here (\<open>ni_m\<close>, \<open>spf_m\<close>, \<open>f_m\<close>), and
  the one-letter accessors \<open>f\<close>, \<open>c\<close>, \<open>w\<close> carry the class name.
\<close>

type_synonym u32 = "32 word"

datatype error =
    OutOfRange string
  | NullHandle
  | BadIndex nat
  | AssertFailed

subsection \<open>Data\<close>

text \<open>
  The two \<open>std::unique_ptr\<close> of doubles members hold the address of an array in the free
  store, or null. The free store \<open>mem\<close> maps an address to the contents of the array
  allocated there. A node descriptor handle is a pointer into the memory pool, or null;
  the descriptor objects themselves (node_desc.hh) are outside this development and are
  represented by values of the type parameter.
\<close>

record 'd lattice =
  ni_m :: u32
  nj_m :: u32
  spf_m :: "nat option"
  spftemp_m :: "nat option"
  node_descs_m :: "'d option list"
  mem :: "nat \<Rightarrow> real list"

definition num_k :: u32 where
  "num_k = 9"

definition read_at :: "'a list \<Rightarrow> nat \<Rightarrow> error + 'a" where
  "read_at xs n = (if n < length xs then Inr (xs ! n) else Inl (BadIndex n))"

subsection \<open>Population accessors\<close>

definition Lattice_f :: "'d lattice \<Rightarrow> u32 \<Rightarrow> u32 \<Rightarrow> u32 \<Rightarrow> error + real" where
  "Lattice_f L i j k =
     (case spf_m L of
        None \<Rightarrow> Inl NullHandle
      | Some a \<Rightarrow> read_at (mem L a) (unat (ni_m L * (i * nj_m L + j) + k)))"

definition Lattice_ftemp :: "'d lattice \<Rightarrow> u32 \<Rightarrow> u32 \<Rightarrow> u32 \<Rightarrow> error + real" where
  "Lattice_ftemp L i j k =
     (case spftemp_m L of
        None \<Rightarrow> Inl NullHandle
      | Some a \<Rightarrow> read_at (mem L a) (unat (ni_m L * (i * nj_m L + j) + k)))"

text \<open>
  The private accessors return a pointer or a reference into a buffer: a pair of the
  array's address and an offset counted in doubles. The subscript of \<open>pf_\<close> is computed
  in \<open>unsigned\<close>; adding \<open>k\<close> to the resulting pointer is pointer arithmetic and does not
  wrap at 32 bits.
\<close>

definition pf_m :: "'d lattice \<Rightarrow> u32 \<Rightarrow> u32 \<Rightarrow> error + (nat \<times> nat)" where
  "pf_m L i j =
     (case spf_m L of
        None \<Rightarrow> Inl NullHandle
      | Some a \<Rightarrow> Inr (a, unat ((i * nj_m L + j) * num_k)))"

definition f_m :: "'d lattice \<Rightarrow> u32 \<Rightarrow> u32 \<Rightarrow> u32 \<Rightarrow> error + (nat \<times> nat)" where
  "f_m L i j k =
     (case pf_m L i j of Inl e \<Rightarrow> Inl e | Inr (a, n) \<Rightarrow> Inr (a, n + unat k))"

definition pft_m :: "'d lattice \<Rightarrow> u32 \<Rightarrow> u32 \<Rightarrow> error + (nat \<times> nat)" where
  "pft_m L i j =
     (case spftemp_m L of
        None \<Rightarrow> Inl NullHandle
      | Some a \<Rightarrow> Inr (a, unat ((i * nj_m L + j) * num_k)))"

definition ft_m :: "'d lattice \<Rightarrow> u32 \<Rightarrow> u32 \<Rightarrow> u32 \<Rightarrow> error + (nat \<times> nat)" where
  "ft_m L i j k =
     (case pft_m L i j of Inl e \<Rightarrow> Inl e | Inr (a, n) \<Rightarrow> Inr (a, n + unat k))"

text \<open>Reading the double that a reference designates.\<close>

definition deref :: "'d lattice \<Rightarrow> error + (nat \<times> nat) \<Rightarrow> error + real" where
  "deref L r = (case r of Inl e \<Rightarrow> Inl e | Inr (a, n) \<Rightarrow> read_at (mem L a) n)"

subsection \<open>Buffer swap\<close>

definition swap_f_ptrs :: "'d lattice \<Rightarrow> 'd lattice" where
  "swap_f_ptrs L = L\<lparr>spf_m := spftemp_m L, spftemp_m := spf_m L\<rparr>"

subsection \<open>Bounds checking\<close>

text \<open>
  \<open>in_bounds\<close> takes two \<open>int\<close>s. In \<open>i < ni_\<close> the \<open>int\<close> meets an \<open>unsigned\<close> and is
  converted to \<open>unsigned\<close>, so that comparison is the unsigned one; \<open>i >= 0\<close> is signed.
  \<open>check_bounds\<close> takes two \<open>unsigned\<close>s and hands them to \<open>in_bounds\<close>, which reads the
  same 32 bits as \<open>int\<close>.
\<close>

definition in_bounds :: "'d lattice \<Rightarrow> u32 \<Rightarrow> u32 \<Rightarrow> bool" where
  "in_bounds L i j = (i < ni_m L \<and> 0 \<le> sint i \<and> j < nj_m L \<and> 0 \<le> sint j)"

text \<open>The stream inserter prints an \<open>unsigned\<close> in decimal.\<close>

definition digit :: "nat \<Rightarrow> char" where
  "digit n = ''0123456789'' ! n"

fun dec :: "nat \<Rightarrow> string" where
  "dec n = (if n < 10 then [digit n] else dec (n div 10) @ [digit (n mod 10)])"

definition oob_message :: "u32 \<Rightarrow> u32 \<Rightarrow> string" where
  "oob_message i j =
     ''(i, j) = ('' @ dec (unat i) @ '', '' @ dec (unat j) @
     '') is out of bounds. Check boundary conditions to ensure they are well-defined.''"

definition check_bounds :: "'d lattice \<Rightarrow> u32 \<Rightarrow> u32 \<Rightarrow> error + unit" where
  "check_bounds L i j =
     (if \<not> in_bounds L i j then Inl (OutOfRange (oob_message i j)) else Inr ())"

subsection \<open>Node descriptors\<close>

text \<open>
  \<open>node_desc(i, j)\<close> dereferences the handle stored at \<open>nj_ * i + j\<close> (an \<open>unsigned\<close>
  product and sum). \<open>set_node_desc\<close> stores the pointer that the memory pool returns; the
  pool is outside this development, so the returned pointer \<open>pnd\<close> is an argument. Without
  \<open>NDEBUG\<close> a null result stops at the assertion.
\<close>

definition node_desc :: "'d lattice \<Rightarrow> u32 \<Rightarrow> u32 \<Rightarrow> error + 'd" where
  "node_desc L i j =
     (let n = unat (nj_m L * i + j) in
      if n < length (node_descs_m L)
      then (case node_descs_m L ! n of None \<Rightarrow> Inl NullHandle | Some d \<Rightarrow> Inr d)
      else Inl (BadIndex n))"


subsection \<open>Loops over an inclusive range of unsigned indices\<close>

text \<open>
  \<open>for (unsigned i = b; i <= e; ++i) body\<close>. The counter wraps at \<open>2^32\<close>, so the loop
  need not end; the result \<open>None\<close> stands for a loop that runs forever. A body that ends
  in an error (undefined behaviour) ends the loop with that error.
\<close>

partial_function (option) for_loop ::
  "(u32 \<Rightarrow> 's \<Rightarrow> (error + 's) option) \<Rightarrow> u32 \<Rightarrow> u32 \<Rightarrow> 's \<Rightarrow> (error + 's) option" where
  "for_loop body i e s =
     (if i \<le> e
      then Option.bind (body i s)
             (\<lambda>r. case r of Inl err \<Rightarrow> Some (Inl err) | Inr s' \<Rightarrow> for_loop body (i + 1) e s')
      else Some (Inr s))"

definition for_region ::
  "(u32 \<Rightarrow> u32 \<Rightarrow> 's \<Rightarrow> error + 's) \<Rightarrow> u32 \<Rightarrow> u32 \<Rightarrow> u32 \<Rightarrow> u32 \<Rightarrow> 's \<Rightarrow> (error + 's) option" where
  "for_region cell bi ei bj ej s =
     for_loop (\<lambda>i. for_loop (\<lambda>j s'. Some (cell i j s')) bj ej) bi ei s"

subsection \<open>Streaming and collision\<close>

text \<open>
  What a descriptor's \<open>stream\<close> and \<open>collide_and_bound\<close> do to the lattice and to the
  multiscale map is decided by the descriptor classes, outside this development: the
  functions \<open>nds\<close> and \<open>ndc\<close> stand for these virtual methods.
\<close>

definition stream_cell ::
  "('d \<Rightarrow> u32 \<Rightarrow> u32 \<Rightarrow> 'd lattice \<Rightarrow> 'd lattice) \<Rightarrow> u32 \<Rightarrow> u32 \<Rightarrow> 'd lattice \<Rightarrow> error + 'd lattice" where
  "stream_cell nds i j L =
     (case node_desc L i j of Inl e \<Rightarrow> Inl e | Inr d \<Rightarrow> Inr (nds d i j L))"

definition stream_region ::
  "('d \<Rightarrow> u32 \<Rightarrow> u32 \<Rightarrow> 'd lattice \<Rightarrow> 'd lattice) \<Rightarrow> u32 \<Rightarrow> u32 \<Rightarrow> u32 \<Rightarrow> u32 \<Rightarrow> 'd lattice
     \<Rightarrow> (error + 'd lattice) option" where
  "stream_region nds bi ei bj ej L = for_region (stream_cell nds) bi ei bj ej L"

definition stream ::
  "('d \<Rightarrow> u32 \<Rightarrow> u32 \<Rightarrow> 'd lattice \<Rightarrow> 'd lattice) \<Rightarrow> 'd lattice \<Rightarrow> (error + 'd lattice) option" where
  "stream nds L = stream_region nds 0 (ni_m L - 1) 0 (nj_m L - 1) L"

definition collide_and_bound_cell ::
  "('d \<Rightarrow> 'c \<Rightarrow> u32 \<Rightarrow> u32 \<Rightarrow> 'd lattice \<times> 'm \<Rightarrow> 'd lattice \<times> 'm) \<Rightarrow> 'c \<Rightarrow> u32 \<Rightarrow> u32
     \<Rightarrow> 'd lattice \<times> 'm \<Rightarrow> error + 'd lattice \<times> 'm" where
  "collide_and_bound_cell ndc cman i j S =
     (case node_desc (fst S) i j of Inl e \<Rightarrow> Inl e | Inr d \<Rightarrow> Inr (ndc d cman i j S))"

definition collide_and_bound_region ::
  "('d \<Rightarrow> 'c \<Rightarrow> u32 \<Rightarrow> u32 \<Rightarrow> 'd lattice \<times> 'm \<Rightarrow> 'd lattice \<times> 'm) \<Rightarrow> 'c
     \<Rightarrow> u32 \<Rightarrow> u32 \<Rightarrow> u32 \<Rightarrow> u32 \<Rightarrow> 'd lattice \<times> 'm \<Rightarrow> (error + 'd lattice \<times> 'm) option" where
  "collide_and_bound_region ndc cman bi ei bj ej S =
     for_region (collide_and_bound_cell ndc cman) bi ei bj ej S"

definition collide_and_bound ::
  "('d \<Rightarrow> 'c \<Rightarrow> u32 \<Rightarrow> u32 \<Rightarrow> 'd lattice \<times> 'm \<Rightarrow> 'd lattice \<times> 'm) \<Rightarrow> 'c
     \<Rightarrow> 'd lattice \<times> 'm \<Rightarrow> (error + 'd lattice \<times> 'm) option" where
  "collide_and_bound ndc cman S =
     collide_and_bound_region ndc cman 0 (ni_m (fst S) - 1) 0 (nj_m (fst S) - 1) S"

subsection \<open>Geometry constants and the static tables\<close>

definition Lattice_dx :: real where
  "Lattice_dx = 1"

definition Lattice_dt :: real where
  "Lattice_dt = 1"

definition Lattice_c0 :: real where
  "Lattice_c0 = Lattice_dx / Lattice_dt"

definition Lattice_cs :: real where
  "Lattice_cs = Lattice_c0 / sqrt 3"

definition Lattice_cssq :: real where
  "Lattice_cssq = Lattice_cs * Lattice_cs"

text \<open>
  Modelled from the spec: the initialiser of the static table \<open>lat_vecs_\<close> is in
  lattice.cc, which is not among the sources; lattice.hh only declares the table as
  \<open>double[9][2]\<close>. The spec calls it the D2Q9 velocity vectors (direction 0 at rest, 1 to
  4 along the axes, 5 to 8 along the diagonals); the order of the directions is the one
  drawn in the class comment of lattice.hh.
\<close>

definition lat_vecs_m :: "real list list" where
  "lat_vecs_m =
     [[0, 0], [1, 0], [0, 1], [-1, 0], [0, -1], [1, 1], [-1, 1], [-1, -1], [1, -1]]"

text \<open>
  Modelled from the spec: the initialiser of the static table \<open>w_\<close> is in lattice.cc as
  well; lattice.hh declares \<open>double[9]\<close>. The spec calls it the weights of the D2Q9
  scheme without listing them; the scheme has 4/9 for the direction at rest, 1/9 along
  the axes and 1/36 along the diagonals.
\<close>

definition w_m :: "real list" where
  "w_m = [4/9, 1/9, 1/9, 1/9, 1/9, 1/36, 1/36, 1/36, 1/36]"

text \<open>
  \<open>pc(k)\<close> is \<open>&lat_vecs_[2 * k]\<close>, the address of row \<open>2 * k\<close> of the table. A pointer
  into the table is an offset, counted in doubles, into its row-major storage, where a
  row takes two doubles. \<open>c(k, c)\<close> reads \<open>*(pc(k) + c)\<close>.
\<close>

definition Lattice_pc :: "u32 \<Rightarrow> nat" where
  "Lattice_pc k = 2 * unat (2 * k)"

definition Lattice_c :: "u32 \<Rightarrow> u32 \<Rightarrow> error + real" where
  "Lattice_c k c = read_at (concat lat_vecs_m) (Lattice_pc k + unat c)"

definition Lattice_w :: "u32 \<Rightarrow> error + real" where
  "Lattice_w k = read_at w_m (unat k)"

subsection \<open>Construction and destruction\<close>

text \<open>
  \<open>new double[n]\<close> leaves the doubles indeterminate: \<open>g\<close> gives the value found at each
  offset of the fresh array.
\<close>

definition new_doubles :: "(nat \<Rightarrow> real) \<Rightarrow> nat \<Rightarrow> real list" where
  "new_doubles g n = map g [0..<n]"

text \<open>
  Modelled from the spec: \<open>init_f_\<close> is declared in lattice.hh and defined in lattice.cc,
  which is not among the sources. The spec says that construction sets all nine populations
  of every cell to the equilibrium values of a fluid at rest, \<open>weight_k * initial_density\<close>.
  In the layout of \<open>f_\<close>, the double at offset \<open>n\<close> of the current buffer belongs to
  direction \<open>n mod 9\<close>.
\<close>

definition init_f_m :: "real \<Rightarrow> 'd lattice \<Rightarrow> 'd lattice" where
  "init_f_m rho L =
     (case spf_m L of
        None \<Rightarrow> L
      | Some a \<Rightarrow>
          L\<lparr>mem := (mem L)(a := map (\<lambda>n. w_m ! (n mod 9) * rho) [0..<length (mem L a)])\<rparr>)"

definition Lattice_default :: "'d lattice" where
  "Lattice_default =
     \<lparr>ni_m = 0, nj_m = 0, spf_m = None, spftemp_m = None, node_descs_m = [], mem = (\<lambda>a. [])\<rparr>"

text \<open>
  The two arrays are allocated at two distinct addresses, here 0 and 1; the sizes
  \<open>ni * nj * num_k()\<close> and \<open>ni * nj\<close> are \<open>unsigned\<close> products. The vector of descriptor
  handles is value-initialised: every handle is null. The memory pool is not modelled.
\<close>

definition Lattice :: "(nat \<Rightarrow> real) \<Rightarrow> (nat \<Rightarrow> real) \<Rightarrow> u32 \<Rightarrow> u32 \<Rightarrow> real \<Rightarrow> 'd lattice" where
  "Lattice g g' ni nj rho =
     init_f_m rho
       \<lparr>ni_m = ni, nj_m = nj, spf_m = Some 0, spftemp_m = Some 1,
        node_descs_m = replicate (unat (ni * nj)) None,
        mem = (\<lambda>a. if a = 0 then new_doubles g (unat (ni * nj * num_k))
                   else if a = 1 then new_doubles g' (unat (ni * nj * num_k))
                   else [])\<rparr>"

text \<open>
  The destructor runs the descriptors' destructors in the order of the vector, the whole
  loop inside one \<open>try\<close> block whose handler catches everything and does nothing. Whether
  the destructor of a descriptor throws is given by \<open>throws\<close>. The destructor of
  \<open>AbstractNodeDesc\<close> is declared in node_desc.hh, which is not among the sources:
  \<open>may_throw\<close> says whether it is declared \<open>noexcept(false)\<close>. If it is not, which is the
  default of C++11, an exception that leaves it calls \<open>std::terminate\<close>. A run ends in
  \<open>Returned\<close> (normal return), \<open>Propagated\<close> (an exception leaves the function),
  \<open>Terminated\<close> (\<open>std::terminate\<close> ends the program) or \<open>Undefined\<close> (a member call
  through a null handle); each carries the descriptors whose destructor was called, in
  order.
\<close>

datatype 'd ending =
    Returned "'d list"
  | Propagated "'d list"
  | Terminated "'d list"
  | Undefined "'d list"

fun destroy_descs :: "bool \<Rightarrow> ('d \<Rightarrow> bool) \<Rightarrow> 'd option list \<Rightarrow> 'd list \<Rightarrow> 'd ending" where
  "destroy_descs may_throw throws [] called = Returned called"
| "destroy_descs may_throw throws (None # hs) called = Undefined called"
| "destroy_descs may_throw throws (Some d # hs) called =
     (if throws d
      then (if may_throw then Propagated (called @ [d]) else Terminated (called @ [d]))
      else destroy_descs may_throw throws hs (called @ [d]))"

definition Lattice_dtor :: "bool \<Rightarrow> ('d \<Rightarrow> bool) \<Rightarrow> 'd lattice \<Rightarrow> 'd ending" where
  "Lattice_dtor may_throw throws L =
     (case destroy_descs may_throw throws (node_descs_m L) [] of
        Propagated ds \<Rightarrow> Returned ds
      | r \<Rightarrow> r)"

section \<open>Equilibrium functors\<close>

text \<open>
  Modelled from the spec: the multiscale map is an external class; the spec gives its
  interface as a density and a two-component velocity. The functor's signature
  \<open>f_(lat, mmap, k)\<close> names no cell, so the map hands over the local values.
\<close>

record mmap =
  mm_rho :: real
  mm_u :: "real \<times> real"

text \<open>
  Modelled from the spec: the velocity terms of the classical truncated Maxwell-Boltzmann
  expansion in lattice units for a direction with velocity vector \<open>ck\<close> and the local
  velocity \<open>u\<close>, with the squared speed of sound \<open>cssq()\<close> of lattice.hh. No source file
  holds the formula; the spec names it.
\<close>

definition expansion :: "real \<times> real \<Rightarrow> real \<times> real \<Rightarrow> real" where
  "expansion ck u =
     (let cu = fst ck * fst u + snd ck * snd u; uu = fst u * fst u + snd u * snd u
      in cu / Lattice_cssq + cu * cu / (2 * Lattice_cssq * Lattice_cssq) - uu / (2 * Lattice_cssq))"

text \<open>
  Modelled from the spec: the velocity vector of direction \<open>k\<close> is row \<open>k\<close> of the table
  of direction vectors (how the absent functor bodies read the table is not known).
\<close>

definition lat_vec :: "u32 \<Rightarrow> error + real \<times> real" where
  "lat_vec k =
     (case read_at lat_vecs_m (unat k) of
        Inl e \<Rightarrow> Inl e
      | Inr row \<Rightarrow> Inr (row ! 0, row ! 1))"

text \<open>
  Modelled from the spec: the body of \<open>IncompFlowEqFunct::f_\<close> is not among the sources
  (the header only declares it). The spec describes it as the classical truncated
  Maxwell-Boltzmann expansion from the direction's weight and velocity vector, the local
  velocity and the local density.
\<close>

definition IncompFlowEqFunct_f :: "mmap \<Rightarrow> u32 \<Rightarrow> error + real" where
  "IncompFlowEqFunct_f mm k =
     (case Lattice_w k of
        Inl e \<Rightarrow> Inl e
      | Inr wk \<Rightarrow>
          (case lat_vec k of
             Inl e \<Rightarrow> Inl e
           | Inr ck \<Rightarrow> Inr (wk * mm_rho mm * (1 + expansion ck (mm_u mm)))))"

text \<open>
  Modelled from the spec: the body of \<open>IncompFlowHLEqFunct::f_\<close> (He and Luo) is not among
  the sources either. The spec describes it as the same expansion with the fixed
  reference density \<open>rho_o\<close>, given to the constructor, in place of the local density in
  the velocity terms.
\<close>

definition IncompFlowHLEqFunct_f :: "real \<Rightarrow> mmap \<Rightarrow> u32 \<Rightarrow> error + real" where
  "IncompFlowHLEqFunct_f rho_o mm k =
     (case Lattice_w k of
        Inl e \<Rightarrow> Inl e
      | Inr wk \<Rightarrow>
          (case lat_vec k of
             Inl e \<Rightarrow> Inl e
           | Inr ck \<Rightarrow> Inr (wk * (mm_rho mm + rho_o * expansion ck (mm_u mm)))))"

text \<open>The sum of the functor's values over a list of directions, failing where one fails.\<close>

fun sum_results :: "(error + real) list \<Rightarrow> error + real" where
  "sum_results [] = Inr 0"
| "sum_results (Inl e # rs) = Inl e"
| "sum_results (Inr x # rs) = (case sum_results rs of Inl e \<Rightarrow> Inl e | Inr y \<Rightarrow> Inr (x + y))"

definition directions :: "u32 list" where
  "directions = [0, 1, 2, 3, 4, 5, 6, 7, 8]"

section \<open>Reference notions for the properties\<close>

text \<open>
  The properties below compare the loops of the source with these plain descriptions:
  running a per-cell operation over a list of cells, one after the other, stopping at the
  first undefined step; the cells of an inclusive rectangle in row-major order; the sum of
  all populations of the current buffer, read cell by cell through \<open>f_\<close>.
\<close>

fun run_list :: "('a \<Rightarrow> 's \<Rightarrow> error + 's) \<Rightarrow> 'a list \<Rightarrow> 's \<Rightarrow> error + 's" where
  "run_list f [] s = Inr s"
| "run_list f (x # xs) s = (case f x s of Inl e \<Rightarrow> Inl e | Inr s' \<Rightarrow> run_list f xs s')"

definition range_incl :: "u32 \<Rightarrow> u32 \<Rightarrow> u32 list" where
  "range_incl b e = map of_nat [unat b..<Suc (unat e)]"

definition region_cells :: "u32 \<Rightarrow> u32 \<Rightarrow> u32 \<Rightarrow> u32 \<Rightarrow> (u32 \<times> u32) list" where
  "region_cells bi ei bj ej = List.product (range_incl bi ei) (range_incl bj ej)"

definition row_major :: "u32 \<times> u32 \<Rightarrow> u32 \<times> u32 \<Rightarrow> bool" where
  "row_major p q = (fst p < fst q \<or> (fst p = fst q \<and> snd p < snd q))"

definition cells_of :: "'d lattice \<Rightarrow> (u32 \<times> u32) list" where
  "cells_of L = List.product (map of_nat [0..<unat (ni_m L)]) (map of_nat [0..<unat (nj_m L)])"

definition total_mass :: "'d lattice \<Rightarrow> error + real" where
  "total_mass L =
     sum_results (concat (map (\<lambda>(i, j). map (\<lambda>k. deref L (f_m L i j k)) directions) (cells_of L)))"

definition destroyed_upto :: "('d \<Rightarrow> bool) \<Rightarrow> 'd list \<Rightarrow> 'd list" where
  "destroyed_upto throws ds =
     takeWhile (\<lambda>d. \<not> throws d) ds @ take 1 (dropWhile (\<lambda>d. \<not> throws d) ds)"

subsection \<open>Concrete lattices and descriptors\<close>

text \<open>
  A 2 by 2 lattice whose current buffer holds at each offset the offset itself and whose
  next buffer holds the offset plus 100, so that a read shows which double it took.
\<close>

definition L22 :: "nat lattice" where
  "L22 =
     \<lparr>ni_m = 2, nj_m = 2, spf_m = Some 0, spftemp_m = Some 1,
      node_descs_m = [None, None, None, None],
      mem = (\<lambda>a. if a = 0 then map real [0..<36] else if a = 1 then map (\<lambda>n. 100 + real n) [0..<36] else [])\<rparr>"

text \<open>A 2 by 3 lattice with a descriptor in every cell; the descriptors are numbered.\<close>

definition L23 :: "nat lattice" where
  "L23 =
     \<lparr>ni_m = 2, nj_m = 3, spf_m = Some 0, spftemp_m = Some 1,
      node_descs_m = [Some 0, Some 1, Some 2, Some 3, Some 4, Some 5],
      mem = (\<lambda>a. [])\<rparr>"

text \<open>A descriptor whose \<open>stream\<close> and \<open>collide_and_bound\<close> leave everything as it is.\<close>

definition nd_idle :: "nat \<Rightarrow> u32 \<Rightarrow> u32 \<Rightarrow> nat lattice \<Rightarrow> nat lattice" where
  "nd_idle d i j L = L"

definition ndc_idle :: "nat \<Rightarrow> unit \<Rightarrow> u32 \<Rightarrow> u32 \<Rightarrow> nat lattice \<times> unit \<Rightarrow> nat lattice \<times> unit" where
  "ndc_idle d cman i j S = S"

text \<open>Destructors: of the descriptors 0, 1, 2, ... only number 1 throws.\<close>

definition throws_1 :: "nat \<Rightarrow> bool" where
  "throws_1 d = (d = 1)"

definition zeros :: "nat \<Rightarrow> real" where
  "zeros n = 0"


section \<open>Auxiliary facts\<close>

subsection \<open>Loops over word ranges\<close>

lemma range_incl_Nil: "\<not> i \<le> e \<Longrightarrow> range_incl i e = []"
  by (simp add: range_incl_def word_le_nat_alt)

lemma unat_below_max: "e \<noteq> - 1 \<Longrightarrow> unat (e :: u32) < 4294967295"
proof -
  assume ne: "e \<noteq> - 1"
  have "unat e < 2 ^ 32" using unsigned_less [of e, where ?'a = nat] by simp
  moreover have "unat e \<noteq> 4294967295"
  proof
    assume "unat e = 4294967295"
    then have "word_of_nat (unat e) = (word_of_nat 4294967295 :: u32)" by simp
    then show False using ne by simp
  qed
  ultimately show ?thesis by simp
qed

lemma unat_succ: "i \<le> e \<Longrightarrow> e \<noteq> - 1 \<Longrightarrow> unat (i + 1) = Suc (unat (i :: u32))"
  using unat_below_max [of e] by (simp add: unat_word_ariths word_le_nat_alt)

lemma range_incl_Cons: "i \<le> e \<Longrightarrow> e \<noteq> - 1 \<Longrightarrow> range_incl i e = i # range_incl (i + 1) e"
  using upt_conv_Cons [of "unat i" "Suc (unat e)"]
  by (simp add: range_incl_def word_le_nat_alt unat_succ del: upt_Suc)

lemma for_loop_run_list:
  assumes e: "e \<noteq> - 1" and body: "\<And>i s. body i s = Some (f i s)"
  shows "for_loop body i e s = Some (run_list f (range_incl i e) s)"
proof (induction "Suc (unat e) - unat i" arbitrary: i s)
  case 0
  then have "\<not> i \<le> e" by (simp add: word_le_nat_alt)
  then show ?case by (subst for_loop.simps) (simp add: range_incl_Nil)
next
  case (Suc n)
  then have le: "i \<le> e" by (simp add: word_le_nat_alt)
  have n: "n = Suc (unat e) - unat (i + 1)"
    using Suc.hyps(2) unat_succ [OF le e] by simp
  show ?case
    by (subst for_loop.simps)
      (simp add: le body range_incl_Cons [OF le e] Suc.hyps(1) [OF n] split: sum.splits)
qed

lemma run_list_append:
  "run_list f (xs @ ys) s = (case run_list f xs s of Inl e \<Rightarrow> Inl e | Inr s' \<Rightarrow> run_list f ys s')"
  by (induction xs arbitrary: s) (simp_all split: sum.splits)

lemma run_list_map: "run_list f (map g xs) s = run_list (\<lambda>x. f (g x)) xs s"
  by (induction xs arbitrary: s) (simp_all split: sum.splits)

lemma run_list_product:
  "run_list (\<lambda>i. run_list (cell i) ys) xs s = run_list (\<lambda>(i, j). cell i j) (List.product xs ys) s"
  by (induction xs arbitrary: s) (simp_all add: run_list_append run_list_map split: sum.splits)

lemma for_region_run_list:
  assumes "ei \<noteq> - 1" and "ej \<noteq> - 1"
  shows "for_region cell bi ei bj ej s = Some (run_list (\<lambda>(i, j). cell i j) (region_cells bi ei bj ej) s)"
proof -
  have inner: "\<And>i s'. for_loop (\<lambda>j s''. Some (cell i j s'')) bj ej s' = Some (run_list (cell i) (range_incl bj ej) s')"
    by (rule for_loop_run_list [OF assms(2)]) simp
  show ?thesis
    unfolding for_region_def region_cells_def
    by (simp add: for_loop_run_list [OF assms(1), where f = "\<lambda>i. run_list (cell i) (range_incl bj ej)"] inner run_list_product)
qed

lemma set_range_incl: "set (range_incl b e) = {i. b \<le> i \<and> i \<le> e}"
proof (rule set_eqI)
  fix i :: u32
  have "i \<in> set (range_incl b e) \<longleftrightarrow> (\<exists>n. unat b \<le> n \<and> n \<le> unat e \<and> i = of_nat n)"
    by (auto simp add: range_incl_def simp del: upt_Suc)
  also have "\<dots> \<longleftrightarrow> b \<le> i \<and> i \<le> e"
  proof
    assume "\<exists>n. unat b \<le> n \<and> n \<le> unat e \<and> i = of_nat n"
    then obtain n where n: "unat b \<le> n" "n \<le> unat e" "i = of_nat n" by blast
    have "n < 2 ^ 32" using n(2) unsigned_less [of e, where ?'a = nat] by simp
    then have "unat i = n" using n(3) by (simp add: unat_of_nat)
    then show "b \<le> i \<and> i \<le> e" using n by (simp add: word_le_nat_alt)
  next
    assume "b \<le> i \<and> i \<le> e"
    then have "unat b \<le> unat i \<and> unat i \<le> unat e \<and> i = of_nat (unat i)"
      by (simp add: word_le_nat_alt)
    then show "\<exists>n. unat b \<le> n \<and> n \<le> unat e \<and> i = of_nat n" by blast
  qed
  finally show "i \<in> set (range_incl b e) \<longleftrightarrow> i \<in> {i. b \<le> i \<and> i \<le> e}" by simp
qed

lemma sorted_range_incl: "sorted_wrt (<) (range_incl b e)"
proof -
  have lt: "(of_nat m :: u32) < of_nat n"
    if "m \<in> set [unat b..<Suc (unat e)]" "n \<in> set [unat b..<Suc (unat e)]" "m < n" for m n
  proof -
    have "n < 2 ^ 32" "m < 2 ^ 32"
      using that unsigned_less [of e, where ?'a = nat] by (simp_all del: upt_Suc)
    then show ?thesis
      using that(3) by (simp add: word_less_nat_alt unat_of_nat)
  qed
  have "sorted_wrt (\<lambda>m n. (of_nat m :: u32) < of_nat n) [unat b..<Suc (unat e)]"
    by (rule sorted_wrt_mono_rel [OF lt sorted_wrt_upt])
  then show ?thesis
    by (simp only: range_incl_def sorted_wrt_map)
qed

lemma sorted_product:
  "sorted_wrt (<) xs \<Longrightarrow> sorted_wrt (<) ys \<Longrightarrow> sorted_wrt row_major (List.product xs ys)"
  by (induction xs) (auto simp add: sorted_wrt_append sorted_wrt_map row_major_def)

lemma set_region_cells:
  "set (region_cells bi ei bj ej) = {(i, j). bi \<le> i \<and> i \<le> ei \<and> bj \<le> j \<and> j \<le> ej}"
  by (auto simp add: region_cells_def set_range_incl)

lemma sorted_region_cells: "sorted_wrt row_major (region_cells bi ei bj ej)"
  by (simp add: region_cells_def sorted_product sorted_range_incl)

subsection \<open>Index arithmetic and the constructed lattice\<close>

lemma cell_index_bound:
  fixes i j ni nj :: nat
  assumes "i < ni" "j < nj"
  shows "i * nj + j < ni * nj"
proof -
  have "i * nj + j < Suc i * nj" using assms(2) by simp
  also have "\<dots> \<le> ni * nj" using assms(1) by (intro mult_le_mono1) simp
  finally show ?thesis .
qed

lemma unat_cell:
  fixes i j ni nj :: u32
  assumes "unat ni * unat nj < 2 ^ 32" "i < ni" "j < nj"
  shows "unat (i * nj + j) = unat i * unat nj + unat j"
proof -
  have "unat i * unat nj + unat j < unat ni * unat nj"
    using assms(2,3) by (intro cell_index_bound) (simp_all add: word_less_nat_alt)
  then have lt: "unat i * unat nj + unat j < 2 ^ 32" using assms(1) by simp
  then have "unat i * unat nj < 2 ^ 32" by simp
  then have "unat (i * nj) = unat i * unat nj" by (simp add: unat_word_ariths)
  then show ?thesis using lt by (simp add: unat_word_ariths)
qed

lemma unat_cell9:
  fixes i j ni nj :: u32
  assumes "unat ni * unat nj * 9 < 2 ^ 32" "i < ni" "j < nj"
  shows "unat ((i * nj + j) * num_k) = (unat i * unat nj + unat j) * 9"
    and "(unat i * unat nj + unat j) * 9 + 9 \<le> unat ni * unat nj * 9"
    and "unat (ni * nj * num_k) = unat ni * unat nj * 9"
proof -
  have small: "unat ni * unat nj < 2 ^ 32" using assms(1) by simp
  have c: "unat (i * nj + j) = unat i * unat nj + unat j"
    by (rule unat_cell [OF small assms(2,3)])
  have b: "unat i * unat nj + unat j < unat ni * unat nj"
    using assms(2,3) by (intro cell_index_bound) (simp_all add: word_less_nat_alt)
  then show le: "(unat i * unat nj + unat j) * 9 + 9 \<le> unat ni * unat nj * 9" by simp
  then have "(unat i * unat nj + unat j) * 9 < 2 ^ 32" using assms(1) by simp
  then show "unat ((i * nj + j) * num_k) = (unat i * unat nj + unat j) * 9"
    by (simp add: unat_word_ariths c num_k_def)
  have "unat (ni * nj) = unat ni * unat nj" using small by (simp add: unat_word_ariths)
  then show "unat (ni * nj * num_k) = unat ni * unat nj * 9"
    using assms(1) by (simp add: unat_word_ariths num_k_def)
qed

lemma Lattice_fields:
  "ni_m (Lattice g g' ni nj rho) = ni"
  "nj_m (Lattice g g' ni nj rho) = nj"
  "spf_m (Lattice g g' ni nj rho) = Some 0"
  "spftemp_m (Lattice g g' ni nj rho) = Some 1"
  "node_descs_m (Lattice g g' ni nj rho) = replicate (unat (ni * nj)) None"
  "mem (Lattice g g' ni nj rho) 0 = map (\<lambda>n. w_m ! (n mod 9) * rho) [0..<unat (ni * nj * num_k)]"
  "mem (Lattice g g' ni nj rho) (Suc 0) = new_doubles g' (unat (ni * nj * num_k))"
  by (simp_all add: Lattice_def init_f_m_def new_doubles_def)

lemma Lattice_w_value: "k < 9 \<Longrightarrow> Lattice_w k = Inr (w_m ! unat k)"
  by (simp add: Lattice_w_def read_at_def w_m_def word_less_nat_alt)

lemma Lattice_cell_value:
  assumes "unat ni * unat nj * 9 < 2 ^ 32" "i < ni" "j < nj" "k < 9"
  shows "deref (Lattice g g' ni nj rho) (f_m (Lattice g g' ni nj rho) i j k) = Inr (w_m ! unat k * rho)"
proof -
  have k: "unat k < 9" using assms(4) by (simp add: word_less_nat_alt)
  note u = unat_cell9 [OF assms(1-3)]
  have lt: "(unat i * unat nj + unat j) * 9 + unat k < unat ni * unat nj * 9"
    using u(2) k by simp
  have md: "((unat i * unat nj + unat j) * 9 + unat k) mod 9 = unat k"
    using k mod_mult_self3 [of "unat i * unat nj + unat j" 9 "unat k"] by (simp only: mod_less)
  show ?thesis
    using lt md by (simp add: deref_def f_m_def pf_m_def Lattice_fields read_at_def u(1,3))
qed

lemma sum_results_Inr: "sum_results (map Inr xs) = Inr (sum_list xs)"
  by (induction xs) simp_all

lemma sum_list_w_m: "sum_list w_m = 1"
  by (simp add: w_m_def)

lemma Lattice_cell_values:
  assumes "unat ni * unat nj * 9 < 2 ^ 32" "i < ni" "j < nj"
  shows "map (\<lambda>k. deref (Lattice g g' ni nj rho) (f_m (Lattice g g' ni nj rho) i j k)) directions
         = map Inr (map (\<lambda>w. w * rho) w_m)"
  by (simp add: directions_def Lattice_cell_value [OF assms] w_m_def)

lemma cells_of_in_range:
  assumes "(i, j) \<in> set (cells_of L)"
  shows "i < ni_m L \<and> j < nj_m L"
proof -
  from assms obtain m n where mn: "m < unat (ni_m L)" "n < unat (nj_m L)" "i = of_nat m" "j = of_nat n"
    by (auto simp add: cells_of_def)
  have "m < 2 ^ 32" "n < 2 ^ 32"
    using mn(1,2) unsigned_less [of "ni_m L", where ?'a = nat] unsigned_less [of "nj_m L", where ?'a = nat]
    by simp_all
  then show ?thesis using mn by (simp add: word_less_nat_alt unat_of_nat)
qed

lemma length_cells_of: "length (cells_of L) = unat (ni_m L) * unat (nj_m L)"
  by (simp add: cells_of_def)

lemma sum_list_concat_const: "sum_list (concat (map (\<lambda>c. vs) cs)) = of_nat (length cs) * sum_list (vs :: real list)"
  by (induction cs) (simp_all add: algebra_simps)

lemma total_mass_Lattice:
  assumes "unat ni * unat nj * 9 < 2 ^ 32"
  shows "total_mass (Lattice g g' ni nj rho :: 'd lattice) = Inr (of_nat (unat ni * unat nj) * rho)"
proof -
  let ?L = "Lattice g g' ni nj rho :: 'd lattice"
  let ?vs = "map (\<lambda>w. w * rho) w_m"
  have "map (\<lambda>(i, j). map (\<lambda>k. deref ?L (f_m ?L i j k)) directions) (cells_of ?L)
        = map (\<lambda>c. map Inr ?vs) (cells_of ?L)"
  proof (rule map_cong [OF refl])
    fix c assume c: "c \<in> set (cells_of ?L)"
    obtain i j where ij: "c = (i, j)" by (cases c)
    have "i < ni \<and> j < nj" using cells_of_in_range [of i j ?L] c ij by (simp add: Lattice_fields)
    then show "(case c of (i, j) \<Rightarrow> map (\<lambda>k. deref ?L (f_m ?L i j k)) directions) = map Inr ?vs"
      using Lattice_cell_values [OF assms, of i j] ij by simp
  qed
  then have "total_mass ?L = sum_results (concat (map (\<lambda>c. map Inr ?vs) (cells_of ?L)))"
    by (simp only: total_mass_def)
  also have "\<dots> = sum_results (map Inr (concat (map (\<lambda>c. ?vs) (cells_of ?L))))"
    by (simp only: map_concat map_map comp_def)
  also have "\<dots> = Inr (of_nat (length (cells_of ?L)) * sum_list ?vs)"
    by (simp only: sum_results_Inr sum_list_concat_const)
  also have "sum_list ?vs = rho"
    by (simp add: w_m_def)
  finally show ?thesis by (simp add: length_cells_of Lattice_fields)
qed

subsection \<open>The tables under the equilibrium functors\<close>

lemma cssq_third: "Lattice_cssq = 1 / 3"
  by (simp add: Lattice_cssq_def Lattice_cs_def Lattice_c0_def Lattice_dx_def Lattice_dt_def)

lemma Lattice_w_dirs:
  "map Lattice_w directions = map Inr w_m"
  by (simp add: directions_def Lattice_w_def read_at_def w_m_def)

lemma lat_vec_dirs:
  "map lat_vec directions = map Inr [(0, 0), (1, 0), (0, 1), (-1, 0), (0, -1), (1, 1), (-1, 1), (-1, -1), (1, -1)]"
  by (simp add: directions_def lat_vec_def read_at_def lat_vecs_m_def)

lemma eq_sum: "sum_results (map (IncompFlowEqFunct_f mm) directions) = Inr (mm_rho mm)"
proof -
  obtain ux uy where u: "mm_u mm = (ux, uy)" by (cases "mm_u mm")
  show ?thesis
    using Lattice_w_dirs lat_vec_dirs
    by (simp add: directions_def IncompFlowEqFunct_f_def expansion_def cssq_third u w_m_def Let_def)
       (simp add: field_simps)
qed

lemma hl_sum: "sum_results (map (IncompFlowHLEqFunct_f rho_o mm) directions) = Inr (mm_rho mm)"
proof -
  obtain ux uy where u: "mm_u mm = (ux, uy)" by (cases "mm_u mm")
  show ?thesis
    using Lattice_w_dirs lat_vec_dirs
    by (simp add: directions_def IncompFlowHLEqFunct_f_def expansion_def cssq_third u w_m_def Let_def)
       (simp add: field_simps)
qed

subsection \<open>Destruction, first cells and descriptor handles\<close>

lemma destroy_descs_Some:
  "destroy_descs may_throw throws (map Some ds) called =
     (if list_ex throws ds
      then (if may_throw then Propagated (called @ destroyed_upto throws ds)
            else Terminated (called @ destroyed_upto throws ds))
      else Returned (called @ destroyed_upto throws ds))"
  by (cases may_throw; induction ds arbitrary: called) (simp_all add: destroyed_upto_def)

lemma Lattice_dtor_Some:
  "node_descs_m L = map Some ds \<Longrightarrow>
   Lattice_dtor may_throw throws L =
     (if list_ex throws ds \<and> \<not> may_throw then Terminated (destroyed_upto throws ds)
      else Returned (destroyed_upto throws ds))"
  by (simp add: Lattice_dtor_def destroy_descs_Some)

lemma Lattice_dtor_no_throw: "Lattice_dtor may_throw throws L \<noteq> Propagated ds"
  by (simp add: Lattice_dtor_def split: ending.splits)

lemma destroyed_upto_all: "\<not> list_ex throws ds \<Longrightarrow> destroyed_upto throws ds = ds"
  by (induction ds) (simp_all add: destroyed_upto_def)

lemma Lattice_dtor_all:
  "node_descs_m L = map Some ds \<Longrightarrow> \<not> list_ex throws ds \<Longrightarrow>
   Lattice_dtor may_throw throws L = Returned ds"
  by (simp add: Lattice_dtor_Some destroyed_upto_all)

lemma for_loop_first_error:
  "body 0 s = Some (Inl err) \<Longrightarrow> for_loop body 0 e s = Some (Inl err)"
  by (subst for_loop.simps) simp

lemma for_region_first_error:
  "cell 0 0 s = Inl err \<Longrightarrow> for_region cell 0 ei 0 ej s = Some (Inl err)"
  unfolding for_region_def
  by (rule for_loop_first_error) (simp add: for_loop_first_error)

lemma node_desc_empty: "node_descs_m L = [] \<Longrightarrow> node_desc L i j = Inl (BadIndex (unat (nj_m L * i + j)))"
  by (simp add: node_desc_def)

lemma stream_empty: "node_descs_m L = [] \<Longrightarrow> stream nds L = Some (Inl (BadIndex 0))"
  unfolding stream_def stream_region_def
  by (rule for_region_first_error) (simp add: stream_cell_def node_desc_def)

lemma collide_empty:
  "node_descs_m (fst S) = [] \<Longrightarrow> collide_and_bound ndc cman S = Some (Inl (BadIndex 0))"
  unfolding collide_and_bound_def collide_and_bound_region_def
  by (rule for_region_first_error) (simp add: collide_and_bound_cell_def node_desc_def)








lemma distinct_region_cells: "distinct (region_cells bi ei bj ej)"
  using sorted_range_incl strict_sorted_iff
  by (auto simp add: region_cells_def intro!: distinct_product)

lemma region_cells_example: "region_cells 0 1 1 2 = [(0, 1), (0, 2), (1, 1), (1, 2)]"
  by (simp add: region_cells_def range_incl_def upt_rec)

lemma run_list_trace:
  "run_list (\<lambda>c tr. Inr (tr @ [c])) cs tr = Inr (tr @ cs)"
  by (induction cs arbitrary: tr) simp_all

lemma for_region_trace:
  assumes "ei \<noteq> - 1" and "ej \<noteq> - 1"
  shows "for_region (\<lambda>i j tr. Inr (tr @ [(i, j)])) bi ei bj ej [] = Some (Inr (region_cells bi ei bj ej))"
  by (simp add: for_region_run_list [OF assms] case_prod_unfold run_list_trace)







lemma Lattice_buffer_lengths:
  "length (mem (Lattice g g' ni nj rho :: 'a lattice) 0) = unat (ni * nj * num_k)"
  "length (mem (Lattice g g' ni nj rho :: 'a lattice) 1) = unat (ni * nj * num_k)"
  by (simp_all add: Lattice_fields new_doubles_def)

lemma Lattice_cell_read:
  assumes "unat ni * unat nj * 9 < 2 ^ 32" "i < ni" "j < nj" "k < 9"
  shows "\<exists>wk. Lattice_w k = Inr wk \<and>
     deref (Lattice g g' ni nj rho :: 'a lattice) (f_m (Lattice g g' ni nj rho :: 'a lattice) i j k) = Inr (wk * rho)"
  using Lattice_cell_value [OF assms] Lattice_w_value [OF assms(4)] by simp

lemma Lattice_4x4_scenario:
  fixes i j k :: u32
  assumes "i < 4" "j < 4" "k < 9"
  shows "\<exists>wk. Lattice_w k = Inr wk \<and>
     deref (Lattice g g' 4 4 1 :: 'a lattice) (f_m (Lattice g g' 4 4 1 :: 'a lattice) i j k) = Inr wk"
  using Lattice_cell_read [of 4 4 i j k g g' 1, where ?'a = 'a] assms by simp

section \<open>Properties\<close>

subsection \<open>Buffer swap\<close>

text \<open>
  C8. Calling \<open>swap_f_ptrs\<close> twice gives back the lattice it started from: the current
  and the next buffer are again the arrays they were. One call exchanges the two
  pointers and leaves the free store as it is, so no population of either array changes:
  what \<open>f_\<close> designated is now what \<open>ft_\<close> designates, and the other way round.
\<close>

theorem swap_f_ptrs_exchange:
  "swap_f_ptrs (swap_f_ptrs L) = L \<and>
   mem (swap_f_ptrs L) = mem L \<and>
   spf_m (swap_f_ptrs L) = spftemp_m L \<and>
   spftemp_m (swap_f_ptrs L) = spf_m L \<and>
   deref (swap_f_ptrs L) (f_m (swap_f_ptrs L) i j k) = deref L (ft_m L i j k) \<and>
   deref (swap_f_ptrs L) (ft_m (swap_f_ptrs L) i j k) = deref L (f_m L i j k)"
  by (simp add: swap_f_ptrs_def deref_def f_m_def ft_m_def pf_m_def pft_m_def
      split: option.splits)

subsection \<open>Bounds checking\<close>

lemma dec_examples: "dec 0 = ''0''" "dec 7 = ''7''" "dec 42 = ''42''" "dec 4096 = ''4096''"
  by (simp_all add: digit_def)

lemma oob_message_example:
  "oob_message 3 12 =
     ''(i, j) = (3, 12) is out of bounds. Check boundary conditions to ensure they are well-defined.''"
  by (simp add: oob_message_def digit_def)

text \<open>
  C3. \<open>check_bounds(i, j)\<close> throws \<open>std::out_of_range\<close>, with the message that names the
  two coordinates, exactly when \<open>i >= ni\<close> or \<open>j >= nj\<close> or one of the two indices is
  negative when read as \<open>int\<close>; otherwise it returns. \<open>in_bounds(i, j)\<close> is true exactly
  when \<open>check_bounds(i, j)\<close> returns.
\<close>

theorem check_bounds_contract:
  "(check_bounds L i j = Inl (OutOfRange (oob_message i j))) =
     (ni_m L \<le> i \<or> nj_m L \<le> j \<or> sint i < 0 \<or> sint j < 0) \<and>
   (check_bounds L i j = Inr ()) =
     (i < ni_m L \<and> j < nj_m L \<and> 0 \<le> sint i \<and> 0 \<le> sint j) \<and>
   (check_bounds L i j = Inr () \<or> check_bounds L i j = Inl (OutOfRange (oob_message i j))) \<and>
   in_bounds L i j = (check_bounds L i j = Inr ()) \<and>
   oob_message i j =
     ''(i, j) = ('' @ dec (unat i) @ '', '' @ dec (unat j) @
     '') is out of bounds. Check boundary conditions to ensure they are well-defined.''"
  by (auto simp add: check_bounds_def in_bounds_def oob_message_def not_le not_less)

subsection \<open>The public population accessors\<close>

text \<open>
  C1. The public accessor \<open>f(i, j, k)\<close> reads offset \<open>ni_ * (i * nj_ + j) + k\<close>, with the
  number of rows where the number of directions belongs. In the 2 by 2 lattice \<open>L22\<close>
  the population of cell (0, 1) in direction 0 is at offset 9, which is where \<open>f_(0, 1, 0)\<close>
  points; \<open>f(0, 1, 0)\<close> returns the double at offset 2. \<open>ftemp\<close> and \<open>ft_\<close> differ in the
  same way.
\<close>

theorem f_reads_ni_stride:
  "Lattice_f L22 0 1 0 = Inr 2 \<and> deref L22 (f_m L22 0 1 0) = Inr 9 \<and>
   Lattice_ftemp L22 0 1 0 = Inr 102 \<and> deref L22 (ft_m L22 0 1 0) = Inr 109"
  by (simp add: L22_def Lattice_f_def Lattice_ftemp_def deref_def f_m_def ft_m_def pf_m_def
      pft_m_def read_at_def num_k_def)

subsection \<open>The direction tables\<close>

text \<open>
  C6. \<open>w(k)\<close> reads entry \<open>k\<close> of the weights. \<open>pc(k)\<close> points at row \<open>2 * k\<close> of the 9 by 2
  table of direction vectors, not at row \<open>k\<close>: \<open>c(1, 0)\<close> returns the first component of
  direction 2, which is 0, where direction 1 has 1, and for direction 5 the read is at
  offset 20 of a table of 18 doubles.
\<close>

theorem Lattice_c_reads_row_2k:
  "Lattice_pc 1 = 4 \<and> Lattice_c 1 0 = Inr 0 \<and> lat_vec 1 = Inr (1, 0) \<and> lat_vec 2 = Inr (0, 1) \<and>
   length (concat lat_vecs_m) = 18 \<and> Lattice_pc 5 = 20 \<and> Lattice_c 5 0 = Inl (BadIndex 20) \<and>
   Lattice_w 1 = Inr (1 / 9)"
  by (simp add: Lattice_c_def Lattice_pc_def lat_vecs_m_def read_at_def lat_vec_def
      Lattice_w_def w_m_def)

subsection \<open>Construction\<close>

text \<open>
  C2, as amended. Construction allocates the two buffers with \<open>ni * nj * 9\<close> doubles each,
  the product as \<open>unsigned\<close> computes it. When \<open>ni * nj * 9\<close> is below \<open>2^32\<close> that is the
  product of the numbers, every cell \<open>(i, j)\<close> of the grid holds
  \<open>weight_k * initial_density\<close> in direction \<open>k\<close>, at the place \<open>f_(i, j, k)\<close> designates,
  and the populations of all cells and directions add up to \<open>ni * nj * initial_density\<close>:
  16 for the 4 by 4 lattice of density 1.
\<close>

theorem Lattice_quiescent_init:
  "spf_m (Lattice g g' ni nj rho :: 'd lattice) = Some 0 \<and>
   spftemp_m (Lattice g g' ni nj rho :: 'd lattice) = Some 1 \<and>
   length (mem (Lattice g g' ni nj rho :: 'd lattice) 0) = unat (ni * nj * num_k) \<and>
   length (mem (Lattice g g' ni nj rho :: 'd lattice) 1) = unat (ni * nj * num_k) \<and>
   (unat ni * unat nj * 9 < 2 ^ 32 \<longrightarrow>
      unat (ni * nj * num_k) = unat ni * unat nj * 9 \<and>
      (i < ni \<and> j < nj \<and> k < 9 \<longrightarrow>
         (\<exists>wk. Lattice_w k = Inr wk \<and>
            deref (Lattice g g' ni nj rho :: 'd lattice) (f_m (Lattice g g' ni nj rho :: 'd lattice) i j k) = Inr (wk * rho))) \<and>
      total_mass (Lattice g g' ni nj rho :: 'd lattice) = Inr (of_nat (unat ni * unat nj) * rho))"
proof -
  have a: "spf_m (Lattice g g' ni nj rho :: 'd lattice) = Some 0"
    "spftemp_m (Lattice g g' ni nj rho :: 'd lattice) = Some 1"
    by (rule Lattice_fields)+
  have b: "unat (ni * nj * num_k) = unat ni * unat nj * 9" if "unat ni * unat nj * 9 < 2 ^ 32"
  proof -
    have "unat ni * unat nj < 2 ^ 32" using that by simp
    then have "unat (ni * nj) = unat ni * unat nj" by (simp add: unat_word_ariths)
    then show ?thesis using that by (simp add: unat_word_ariths num_k_def)
  qed
  show ?thesis
    using a b Lattice_buffer_lengths [of g g' ni nj rho, where ?'a = 'd]
      Lattice_cell_read [of ni nj i j k g g' rho, where ?'a = 'd]
      total_mass_Lattice [of ni nj g g' rho, where ?'d = 'd]
    by blast
qed

theorem Lattice_quiescent_init_witness:
  "unat (4 :: u32) * unat (4 :: u32) * 9 < 2 ^ 32 \<and> (2 :: u32) < 4 \<and> (3 :: u32) < 4 \<and> (5 :: u32) < 9 \<and>
   length (mem (Lattice zeros zeros 4 4 1 :: nat lattice) 0) = 144 \<and>
   length (mem (Lattice zeros zeros 4 4 1 :: nat lattice) 1) = 144 \<and>
   Lattice_w 5 = Inr (1 / 36) \<and>
   deref (Lattice zeros zeros 4 4 1 :: nat lattice) (f_m (Lattice zeros zeros 4 4 1 :: nat lattice) 2 3 5) = Inr (1 / 36) \<and>
   total_mass (Lattice zeros zeros 4 4 1 :: nat lattice) = Inr 16"
proof -
  have h: "unat (4 :: u32) * unat (4 :: u32) * 9 < 2 ^ 32" "(2 :: u32) < 4 \<and> (3 :: u32) < 4 \<and> (5 :: u32) < 9"
    by simp_all
  have w: "Lattice_w 5 = Inr (1 / 36)"
    by (simp add: Lattice_w_def read_at_def w_m_def)
  note t = Lattice_quiescent_init [of zeros zeros 4 4 1 2 3 5, where ?'d = nat]
  have c1: "length (mem (Lattice zeros zeros 4 4 1 :: nat lattice) 0) = 144 \<and>
     length (mem (Lattice zeros zeros 4 4 1 :: nat lattice) 1) = 144"
    using t by (simp add: num_k_def)
  have c2: "deref (Lattice zeros zeros 4 4 1 :: nat lattice) (f_m (Lattice zeros zeros 4 4 1 :: nat lattice) 2 3 5) = Inr (1 / 36)"
    using t h w by auto
  have c3: "total_mass (Lattice zeros zeros 4 4 1 :: nat lattice) = Inr 16"
    using t h by simp
  show ?thesis using h w c1 c2 c3 by simp
qed

text \<open>
  C2 as stated fails where the product wraps: \<open>Lattice(1073741825, 4, 1.0)\<close> gets buffers
  of 36 doubles, since \<open>1073741825 * 4 * 9\<close> is 36 modulo \<open>2^32\<close>, and the cell (5, 0) of
  its grid has no storage: \<open>f_(5, 0, 0)\<close> designates offset 180.
\<close>

theorem Lattice_wrapped_size:
  "(5 :: u32) < 1073741825 \<and> (0 :: u32) < 4 \<and>
   length (mem (Lattice zeros zeros 1073741825 4 1 :: nat lattice) 0) = 36 \<and>
   length (mem (Lattice zeros zeros 1073741825 4 1 :: nat lattice) 1) = 36 \<and>
   length (mem (Lattice zeros zeros 1073741825 4 1 :: nat lattice) 0) \<noteq> 1073741825 * 4 * 9 \<and>
   deref (Lattice zeros zeros 1073741825 4 1 :: nat lattice)
     (f_m (Lattice zeros zeros 1073741825 4 1 :: nat lattice) 5 0 0) = Inl (BadIndex 180)"
  by (simp add: num_k_def deref_def f_m_def pf_m_def Lattice_fields read_at_def
      new_doubles_def)

subsection \<open>The empty lattice\<close>

text \<open>
  C4. On a lattice without cells the whole-grid \<open>stream()\<close> and \<open>collide_and_bound(mmap,
  cman)\<close> do enter their loops: \<open>ni_ - 1\<close> wraps to 4294967295, the loop conditions
  \<open>0 <= ei\<close> and \<open>0 <= ej\<close> hold, and the per-cell operation is called for cell (0, 0),
  which indexes the empty vector of descriptor handles at 0. This holds for the default
  constructed lattice and for a constructed lattice with \<open>ni = 0\<close> or \<open>nj = 0\<close>.
\<close>

theorem stream_empty_lattice_reaches_cell:
  "stream nd_idle Lattice_default = Some (Inl (BadIndex 0)) \<and>
   collide_and_bound ndc_idle () (Lattice_default, ()) = Some (Inl (BadIndex 0)) \<and>
   stream nd_idle (Lattice zeros zeros 0 3 1) = Some (Inl (BadIndex 0)) \<and>
   collide_and_bound ndc_idle () (Lattice zeros zeros 3 0 1, ()) = Some (Inl (BadIndex 0)) \<and>
   ni_m (Lattice_default :: nat lattice) * nj_m (Lattice_default :: nat lattice) = 0 \<and>
   ni_m (Lattice_default :: nat lattice) - 1 = 4294967295"
proof -
  have d: "node_descs_m (Lattice_default :: nat lattice) = []"
    by (simp add: Lattice_default_def)
  have e: "node_descs_m (Lattice zeros zeros 0 3 1 :: nat lattice) = []"
    "node_descs_m (Lattice zeros zeros 3 0 1 :: nat lattice) = []"
    by (simp_all add: Lattice_fields)
  have n: "ni_m (Lattice_default :: nat lattice) * nj_m (Lattice_default :: nat lattice) = 0"
    "ni_m (Lattice_default :: nat lattice) - 1 = 4294967295"
    by (simp_all add: Lattice_default_def)
  show ?thesis
    using stream_empty [of Lattice_default nd_idle, OF d]
      collide_empty [of "(Lattice_default, ())" ndc_idle "()"]
      stream_empty [OF e(1), of nd_idle]
      collide_empty [of "(Lattice zeros zeros 3 0 1, ())" ndc_idle "()"] d e n
    by simp
qed

subsection \<open>Destruction\<close>

text \<open>
  C5. The destructor does not reach every descriptor once a destruction fails: the \<open>try\<close>
  block encloses the whole loop, so the first exception ends the loop. In \<open>L23\<close>, where
  every cell has a descriptor and the destructor of descriptor 1 throws, the descriptors
  2 to 5 are never destroyed. If the descriptor's destructor is declared
  \<open>noexcept(false)\<close> the exception is swallowed and \<open>~Lattice\<close> returns after descriptor
  1; with the default \<open>noexcept\<close> the program is terminated at descriptor 1. In neither
  case does an exception leave \<open>~Lattice\<close>.
\<close>

theorem Lattice_dtor_skips_remaining:
  "node_descs_m L23 = [Some 0, Some 1, Some 2, Some 3, Some 4, Some 5] \<and> throws_1 1 \<and>
   Lattice_dtor True throws_1 L23 = Returned [0, 1] \<and>
   Lattice_dtor False throws_1 L23 = Terminated [0, 1] \<and>
   Lattice_dtor True throws_1 L23 \<noteq> Returned [0, 1, 2, 3, 4, 5] \<and>
   Lattice_dtor False throws_1 L23 \<noteq> Returned [0, 1, 2, 3, 4, 5]"
  by (simp add: Lattice_dtor_def L23_def throws_1_def)

subsection \<open>Equilibrium\<close>

text \<open>
  C7. For every density and velocity that the multiscale map supplies, the values of the
  equilibrium functor over the nine directions add up to the density, for the standard
  functor and for the He-Luo functor with any reference density \<open>rho_o\<close>.
\<close>

theorem equilibrium_conserves_density:
  "sum_results (map (IncompFlowEqFunct_f mm) directions) = Inr (mm_rho mm) \<and>
   sum_results (map (IncompFlowHLEqFunct_f rho_o mm) directions) = Inr (mm_rho mm)"
  by (simp only: eq_sum hl_sum simp_thms)

subsection \<open>Descriptor handles\<close>



subsection \<open>Region loops\<close>

text \<open>
  C10. For a region with \<open>bi <= ei < ni\<close> and \<open>bj <= ej < nj\<close> the region overloads of
  \<open>stream\<close> and \<open>collide_and_bound\<close> return, and they do what running the per-cell
  operation over the list \<open>region_cells bi ei bj ej\<close> does. That list holds exactly the
  cells \<open>(i, j)\<close> with \<open>bi <= i <= ei\<close> and \<open>bj <= j <= ej\<close>, each once, in row-major
  order. The whole-grid overloads are the region overloads at \<open>(0, ni - 1, 0, nj - 1)\<close>.
\<close>

theorem region_overloads_row_major:
  assumes "bi \<le> ei" and "ei < ni_m L" and "bj \<le> ej" and "ej < nj_m L"
  shows
    "stream_region nds bi ei bj ej L =
       Some (run_list (\<lambda>(i, j). stream_cell nds i j) (region_cells bi ei bj ej) L) \<and>
     collide_and_bound_region ndc cman bi ei bj ej (L, mm) =
       Some (run_list (\<lambda>(i, j). collide_and_bound_cell ndc cman i j) (region_cells bi ei bj ej) (L, mm)) \<and>
     set (region_cells bi ei bj ej) = {(i, j). bi \<le> i \<and> i \<le> ei \<and> bj \<le> j \<and> j \<le> ej} \<and>
     distinct (region_cells bi ei bj ej) \<and>
     sorted_wrt row_major (region_cells bi ei bj ej) \<and>
     stream nds L = stream_region nds 0 (ni_m L - 1) 0 (nj_m L - 1) L \<and>
     collide_and_bound ndc cman (L, mm) =
       collide_and_bound_region ndc cman 0 (ni_m L - 1) 0 (nj_m L - 1) (L, mm)"
proof -
  have ei: "ei \<noteq> - 1" using assms(2) by auto
  have ej: "ej \<noteq> - 1" using assms(4) by auto
  have s: "stream_region nds bi ei bj ej L =
       Some (run_list (\<lambda>(i, j). stream_cell nds i j) (region_cells bi ei bj ej) L)"
    unfolding stream_region_def by (rule for_region_run_list [OF ei ej])
  have c: "collide_and_bound_region ndc cman bi ei bj ej (L, mm) =
       Some (run_list (\<lambda>(i, j). collide_and_bound_cell ndc cman i j) (region_cells bi ei bj ej) (L, mm))"
    unfolding collide_and_bound_region_def by (rule for_region_run_list [OF ei ej])
  have w: "stream nds L = stream_region nds 0 (ni_m L - 1) 0 (nj_m L - 1) L"
    by (simp add: stream_def)
  have w': "collide_and_bound ndc cman (L, mm) =
       collide_and_bound_region ndc cman 0 (ni_m L - 1) 0 (nj_m L - 1) (L, mm)"
    by (simp add: collide_and_bound_def)
  show ?thesis
    using s c w w' set_region_cells [of bi ei bj ej] distinct_region_cells [of bi ei bj ej]
      sorted_region_cells [of bi ei bj ej]
    by (simp only: simp_thms)
qed

theorem region_overloads_row_major_witness:
  "(0 :: u32) \<le> 1 \<and> 1 < ni_m L23 \<and> (1 :: u32) \<le> 2 \<and> 2 < nj_m L23 \<and>
   stream_region nd_idle 0 1 1 2 L23 =
     Some (run_list (\<lambda>(i, j). stream_cell nd_idle i j) (region_cells 0 1 1 2) L23) \<and>
   region_cells 0 1 1 2 = [(0, 1), (0, 2), (1, 1), (1, 2)]"
proof -
  have h: "(0 :: u32) \<le> 1" "1 < ni_m L23" "(1 :: u32) \<le> 2" "2 < nj_m L23"
    by (simp_all add: L23_def)
  show ?thesis
    using h region_overloads_row_major [OF h, of nd_idle ndc_idle "()" "()"] region_cells_example
    by (simp only: simp_thms)
qed

end
